theory Spec2Isabelle
  imports Main "HOL-Library.Sublist" "HOL-Library.Word"
begin

section \<open>Go values and the library functions the adapters call\<close>

text \<open>
  A value of Go's \<open>any\<close> as the adapters inspect it: by type switch and type assertion on
  \<open>string\<close>, \<open>[]byte\<close>, \<open>[]any\<close> and \<open>map[string]any\<close>; \<open>AStrings\<close> is a \<open>[]string\<close>.
  A Go string is its bytes, so \<open>string\<close> (a list of 8-bit characters) is the model. A \<open>map[string]any\<close> is an
  association list; a nil map or slice and an empty one are the same list \<open>[]\<close>, since
  the adapters only range over them, index them and take their length. \<open>ANumber\<close> and
  \<open>AOther\<close> stand for numbers and for values of any further dynamic type; the adapters
  never compute with them.
\<close>

datatype any =
    ANil
  | AString string
  | ABool bool
  | ANumber int
  | ABytes string
  | AStrings "string list"
  | AArray "any list"
  | AMap "(string \<times> any) list"
  | AOther nat

type_synonym gomap = "(string \<times> any) list"

text \<open>How a call can fail: a run-time panic, or a returned \<open>error\<close> with its message.\<close>

datatype failure = Panic | Error string

text \<open>The comma-ok type assertions \<open>v.(string)\<close>, \<open>v.([]any)\<close>, \<open>v.(map[string]any)\<close>.\<close>

fun as_string :: "any \<Rightarrow> string option" where
  "as_string (AString s) = Some s"
| "as_string _ = None"

fun as_array :: "any \<Rightarrow> any list option" where
  "as_array (AArray xs) = Some xs"
| "as_array _ = None"

fun as_map :: "any \<Rightarrow> gomap option" where
  "as_map (AMap kvs) = Some kvs"
| "as_map _ = None"

text \<open>\<open>m[key]\<close> read as an \<open>any\<close>: a missing key gives the nil interface value.\<close>

definition index_map :: "gomap \<Rightarrow> string \<Rightarrow> any" where
  "index_map m k = (case map_of m k of None \<Rightarrow> ANil | Some v \<Rightarrow> v)"

subsection \<open>\<open>strings.Join\<close> and \<open>strings.TrimSpace\<close>\<close>

fun Join :: "string list \<Rightarrow> string \<Rightarrow> string" where
  "Join [] sep = []"
| "Join [x] sep = x"
| "Join (x # y # ys) sep = x @ sep @ Join (y # ys) sep"

text \<open>
  \<open>strings.TrimSpace\<close> removes leading and trailing runes that \<open>unicode.IsSpace\<close> accepts.
  On the bytes of the string these are the UTF-8 encodings below (U+0009 to U+000D, U+0020,
  U+0085, U+00A0, U+1680, U+2000 to U+200A, U+2028, U+2029, U+202F, U+205F, U+3000); a
  byte sequence that is not one of them decodes to another rune or to the error rune,
  neither of which is a space.
\<close>

definition white_space :: "string list" where
  "white_space =
    [[CHR 0x09], [CHR 0x0A], [CHR 0x0B], [CHR 0x0C], [CHR 0x0D], [CHR 0x20],
     [CHR 0xC2, CHR 0x85], [CHR 0xC2, CHR 0xA0],
     [CHR 0xE1, CHR 0x9A, CHR 0x80],
     [CHR 0xE2, CHR 0x80, CHR 0x80], [CHR 0xE2, CHR 0x80, CHR 0x81],
     [CHR 0xE2, CHR 0x80, CHR 0x82], [CHR 0xE2, CHR 0x80, CHR 0x83],
     [CHR 0xE2, CHR 0x80, CHR 0x84], [CHR 0xE2, CHR 0x80, CHR 0x85],
     [CHR 0xE2, CHR 0x80, CHR 0x86], [CHR 0xE2, CHR 0x80, CHR 0x87],
     [CHR 0xE2, CHR 0x80, CHR 0x88], [CHR 0xE2, CHR 0x80, CHR 0x89],
     [CHR 0xE2, CHR 0x80, CHR 0x8A],
     [CHR 0xE2, CHR 0x80, CHR 0xA8], [CHR 0xE2, CHR 0x80, CHR 0xA9],
     [CHR 0xE2, CHR 0x80, CHR 0xAF],
     [CHR 0xE2, CHR 0x81, CHR 0x9F],
     [CHR 0xE3, CHR 0x80, CHR 0x80]]"

text \<open>The width in bytes of the space rune a string starts (ends) with, 0 when it has none.\<close>

definition leading_space :: "string \<Rightarrow> nat" where
  "leading_space s = (case find (\<lambda>e. prefix e s) white_space of None \<Rightarrow> 0 | Some e \<Rightarrow> length e)"

definition trailing_space :: "string \<Rightarrow> nat" where
  "trailing_space s = (case find (\<lambda>e. suffix e s) white_space of None \<Rightarrow> 0 | Some e \<Rightarrow> length e)"

lemma white_space_nonempty: "e \<in> set white_space \<Longrightarrow> e \<noteq> []"
  by (auto simp: white_space_def)

lemma leading_space_le: "leading_space s \<le> length s"
  by (auto simp: leading_space_def prefix_length_le split: option.splits dest!: find_Some_iff[THEN iffD1])

lemma trailing_space_le: "trailing_space s \<le> length s"
  by (auto simp: trailing_space_def suffix_length_le split: option.splits dest!: find_Some_iff[THEN iffD1])

lemma leading_space_pos: "0 < leading_space s \<Longrightarrow> length s - leading_space s < length s"
  using leading_space_le[of s] by auto

lemma trailing_space_pos: "0 < trailing_space s \<Longrightarrow> length s - trailing_space s < length s"
  using trailing_space_le[of s] by auto

function TrimLeft :: "string \<Rightarrow> string" where
  "TrimLeft s = (if leading_space s = 0 then s else TrimLeft (drop (leading_space s) s))"
  by pat_completeness auto
termination
  by (relation "measure length") (auto intro: leading_space_pos)

function TrimRight :: "string \<Rightarrow> string" where
  "TrimRight s =
     (if trailing_space s = 0 then s else TrimRight (take (length s - trailing_space s) s))"
  by pat_completeness auto
termination
  by (relation "measure length") (auto intro: trailing_space_pos)

declare TrimLeft.simps [simp del] TrimRight.simps [simp del]

definition TrimSpace :: "string \<Rightarrow> string" where
  "TrimSpace s = TrimRight (TrimLeft s)"

lemma white_space_blank: "e \<in> set white_space \<Longrightarrow> e = [CHR 0x20] \<or> CHR 0x20 \<notin> set e"
  by (auto simp: white_space_def)

lemma prefix_append_blank:
  assumes "s \<noteq> []" and "e = [CHR 0x20] \<or> CHR 0x20 \<notin> set e"
  shows "prefix e (s @ [CHR 0x20]) = prefix e s"
proof
  assume "prefix e (s @ [CHR 0x20])"
  then consider "prefix e s" | us where "e = s @ us" "prefix us [CHR 0x20]"
    by (auto simp: prefix_append)
  then show "prefix e s"
  proof cases
    case 1 then show ?thesis .
  next
    case 2
    then have "us = [] \<or> us = [CHR 0x20]" by (cases us) auto
    with 2 assms show ?thesis by auto
  qed
next
  assume "prefix e s" then show "prefix e (s @ [CHR 0x20])" by simp
qed

lemma leading_space_append_blank:
  assumes "s \<noteq> []"
  shows "leading_space (s @ [CHR 0x20]) = leading_space s"
proof -
  have "find (\<lambda>e. prefix e (s @ [CHR 0x20])) white_space = find (\<lambda>e. prefix e s) white_space"
  proof (rule find_cong)
    fix e assume "e \<in> set white_space"
    then show "prefix e (s @ [CHR 0x20]) = prefix e s"
      by (intro prefix_append_blank[OF assms] white_space_blank)
  qed simp
  then show ?thesis by (simp add: leading_space_def)
qed

lemma trailing_space_append_blank: "trailing_space (s @ [CHR 0x20]) = 1"
  by (simp add: trailing_space_def white_space_def suffix_to_prefix)

lemma leading_space_Nil: "leading_space [] = 0"
  by (simp add: leading_space_def white_space_def)

lemma trailing_space_Nil: "trailing_space [] = 0"
  by (simp add: trailing_space_def white_space_def)

lemma leading_space_blank: "leading_space [CHR 0x20] = 1"
  by (simp add: leading_space_def white_space_def)

lemma TrimRight_append_blank: "TrimRight (s @ [CHR 0x20]) = TrimRight s"
  by (subst TrimRight.simps) (simp add: trailing_space_append_blank)

lemma TrimLeft_Nil: "TrimLeft [] = []"
  by (subst TrimLeft.simps) (simp add: leading_space_Nil)

lemma TrimRight_Nil: "TrimRight [] = []"
  by (subst TrimRight.simps) (simp add: trailing_space_Nil)

lemma TrimSpace_Nil: "TrimSpace [] = []"
  by (simp add: TrimSpace_def TrimLeft_Nil TrimRight_Nil)

text \<open>A blank appended to a string is trimmed away with the rest of its trailing space.\<close>

lemma TrimSpace_append_blank: "TrimSpace (s @ [CHR 0x20]) = TrimSpace s"
proof (induction s rule: TrimLeft.induct)
  case (1 s)
  show ?case
  proof (cases "s = []")
    case True
    have "TrimLeft [CHR 0x20] = TrimLeft []"
      by (subst TrimLeft.simps) (simp add: leading_space_blank)
    with True show ?thesis by (simp add: TrimSpace_def)
  next
    case False
    note eq = leading_space_append_blank[OF False]
    show ?thesis
    proof (cases "leading_space s = 0")
      case True
      then have "TrimLeft (s @ [CHR 0x20]) = s @ [CHR 0x20]" "TrimLeft s = s"
        using eq by (subst TrimLeft.simps, simp)+
      then show ?thesis by (simp add: TrimSpace_def TrimRight_append_blank)
    next
      case nz: False
      have le: "leading_space s \<le> length s" by (rule leading_space_le)
      have "TrimLeft (s @ [CHR 0x20]) = TrimLeft (drop (leading_space s) s @ [CHR 0x20])"
        using nz eq le by (subst TrimLeft.simps) simp
      moreover have "TrimLeft s = TrimLeft (drop (leading_space s) s)"
        using nz by (subst TrimLeft.simps) simp
      ultimately show ?thesis using "1.IH"[OF nz] by (simp add: TrimSpace_def)
    qed
  qed
qed

subsection \<open>\<open>%d\<close> of an \<open>int\<close>\<close>

function FormatUint :: "nat \<Rightarrow> string" where
  "FormatUint n =
     (if n < 10 then [''0123456789'' ! n]
      else FormatUint (n div 10) @ [''0123456789'' ! (n mod 10)])"
  by pat_completeness auto
termination
  by (relation "measure id") auto

declare FormatUint.simps [simp del]

definition Itoa :: "int \<Rightarrow> string" where
  "Itoa i = (if i < 0 then CHR ''-'' # FormatUint (nat (- i)) else FormatUint (nat i))"

subsection \<open>The library and the environment\<close>

text \<open>
  The standard-library functions the adapters call on values of \<open>any\<close> are parameters of
  the model, so every theorem holds for whatever they compute:
  \<^item> \<open>json_Marshal v\<close> is \<open>json.Marshal(v)\<close>: the encoding, or \<open>None\<close> for an error;
  \<^item> \<open>json_Unmarshal raw\<close> is \<open>json.Unmarshal(raw, &args)\<close> into a nil
    \<open>map[string]any\<close>: the map \<open>args\<close> holds afterwards (the nil map, here \<open>[]\<close>, for
    the JSON text \<open>null\<close>), or \<open>None\<close> for an error;
  \<^item> \<open>fmt_Sprint v\<close> is \<open>fmt.Sprint(v)\<close>, which is \<open>fmt.Sprintf("%v", v)\<close>.
\<close>

record go_lib =
  json_Marshal :: "any \<Rightarrow> string option"
  json_Unmarshal :: "string \<Rightarrow> gomap option"
  fmt_Sprint :: "any \<Rightarrow> string"

section \<open>The data of the five packages\<close>

subsection \<open>Content blocks and stored turns (packages history and anthropic)\<close>

text \<open>
  \<open>history.ContentBlock\<close> and \<open>anthropic.ContentBlock\<close> declare the same struct;
  \<open>Input\<close> is a \<open>json.RawMessage\<close>, the bytes of a JSON text.
\<close>

record ContentBlock =
  Type :: string
  Text :: string
  ID :: string
  ToolUseID :: string
  Name :: string
  Input :: string
  Content :: any

record HistoryMessage =
  ARole :: string
  AContent :: "ContentBlock list"

text \<open>\<open>anthropic.APIMessage\<close> with the fields the adapter reads, and \<open>anthropic.Message\<close>.\<close>

record APIMessage =
  Role :: string
  Content :: "ContentBlock list"

record anthropic_Message =
  Msg :: APIMessage

subsection \<open>Package openai\<close>

text \<open>
  The wire structs of package openai, as \<open>SendMessage\<close> and \<open>CreateToolResponse\<close> build and
  read them. \<open>MessageParam.Content\<close> is a \<open>*string\<close>: \<open>None\<close> is the nil pointer. The
  pointers \<open>Resp\<close> and \<open>Choice\<close> of a \<open>Message\<close> are set wherever one is built.
\<close>

record FunctionCall =
  Name :: string
  Arguments :: string

record openai_ToolCall =
  ID :: string
  Type :: string
  Function :: FunctionCall

record MessageParam =
  Role :: string
  Content :: "string option"
  ToolCalls :: "openai_ToolCall list"
  ToolCallID :: string

record Choice =
  Message :: MessageParam

record APIResponse =
  Choices :: "Choice list"

record openai_Message =
  Resp :: APIResponse
  Choice :: Choice

subsection \<open>Package google and the genai SDK's types\<close>

record genai_FunctionCall =
  Name :: string
  Args :: gomap

record genai_FunctionResponse =
  Name :: string
  Response :: gomap

text \<open>
  A \<open>genai.Part\<close> by its dynamic type: \<open>genai.Text\<close>, \<open>genai.FunctionCall\<close>,
  \<open>genai.FunctionResponse\<close>, \<open>*genai.FunctionResponse\<close>, or another part type.
\<close>

datatype Part =
    TextPart string
  | FunctionCallPart genai_FunctionCall
  | FunctionResponsePart genai_FunctionResponse
  | FunctionResponsePtr genai_FunctionResponse
  | OtherPart nat

record genai_Content =
  Parts :: "Part list"
  Role :: string

text \<open>A \<open>genai.Candidate\<close>; its \<open>Content\<close> is a pointer, \<open>None\<close> when nil.\<close>

record Candidate =
  Content :: "genai_Content option"

text \<open>Go's \<open>int\<close> is the 64-bit signed integer: \<open>+\<close> wraps, \<open>sint\<close> reads the value.\<close>

type_synonym go_int = "64 word"

record google_Message =
  Candidate :: Candidate
  toolCallID :: go_int

datatype genai_Type =
  TypeUnspecified | TypeString | TypeNumber | TypeInteger | TypeBoolean | TypeArray | TypeObject

text \<open>
  \<open>genai.Schema\<close> with its fields \<open>Type\<close>, \<open>Description\<close>, \<open>Nullable\<close>, \<open>Properties\<close>,
  \<open>Items\<close> and \<open>Required\<close>, in this order.
\<close>

datatype genai_Schema =
  Schema genai_Type string bool "(string \<times> genai_Schema) list" "genai_Schema option" "string list"

subsection \<open>Package llm: tools and their schemas\<close>

record llm_Schema =
  Type :: string
  Properties :: gomap
  Required :: "string list"

record Tool =
  Name :: string
  Description :: string
  InputSchema :: llm_Schema

subsection \<open>Package ollama and its API's types\<close>

record api_ToolCallFunction =
  Name :: string
  Arguments :: gomap

record api_ToolCall =
  Function :: api_ToolCallFunction

record api_Message =
  Role :: string
  Content :: string
  ToolCalls :: "api_ToolCall list"

record OllamaMessage =
  Message :: api_Message
  ToolCallID :: string

section \<open>The interface \<open>llm.ToolCall\<close>\<close>

text \<open>
  One constructor for each struct that implements the interface, with the struct's
  fields in order: \<open>history.HistoryToolCall{id, name, args}\<close>,
  \<open>openai.ToolCallWrapper{Call}\<close>, \<open>anthropic.ToolCall{id, name, args}\<close>,
  \<open>google.ToolCall{FunctionCall, toolCallID}\<close> and \<open>ollama.OllamaToolCall{call, id}\<close>.
\<close>

datatype ToolCall =
    HistoryToolCall string string string
  | ToolCallWrapper openai_ToolCall
  | anthropic_ToolCall string string string
  | google_ToolCall genai_FunctionCall go_int
  | OllamaToolCall api_ToolCall string

text \<open>
  The three \<open>Arguments\<close> methods that decode stored JSON: on an error of
  \<open>json.Unmarshal\<close> they return \<open>make(map[string]any)\<close>, otherwise the decoded \<open>args\<close>.
\<close>

definition unmarshal_args :: "go_lib \<Rightarrow> string \<Rightarrow> gomap" where
  "unmarshal_args L raw = (case json_Unmarshal L raw of None \<Rightarrow> [] | Some args \<Rightarrow> args)"

fun ToolCall_ID :: "ToolCall \<Rightarrow> string" where
  "ToolCall_ID (HistoryToolCall i n a) = i"
| "ToolCall_ID (ToolCallWrapper c) = openai_ToolCall.ID c"
| "ToolCall_ID (anthropic_ToolCall i n a) = i"
| "ToolCall_ID (google_ToolCall fc k) = ''Tool<'' @ Itoa (sint k) @ ''>''"
| "ToolCall_ID (OllamaToolCall c i) = i"

fun ToolCall_Name :: "ToolCall \<Rightarrow> string" where
  "ToolCall_Name (HistoryToolCall i n a) = n"
| "ToolCall_Name (ToolCallWrapper c) = FunctionCall.Name (openai_ToolCall.Function c)"
| "ToolCall_Name (anthropic_ToolCall i n a) = n"
| "ToolCall_Name (google_ToolCall fc k) = genai_FunctionCall.Name fc"
| "ToolCall_Name (OllamaToolCall c i) = api_ToolCallFunction.Name (api_ToolCall.Function c)"

fun ToolCall_Arguments :: "go_lib \<Rightarrow> ToolCall \<Rightarrow> gomap" where
  "ToolCall_Arguments L (HistoryToolCall i n a) = unmarshal_args L a"
| "ToolCall_Arguments L (ToolCallWrapper c) =
     unmarshal_args L (FunctionCall.Arguments (openai_ToolCall.Function c))"
| "ToolCall_Arguments L (anthropic_ToolCall i n a) = unmarshal_args L a"
| "ToolCall_Arguments L (google_ToolCall fc k) = genai_FunctionCall.Args fc"
| "ToolCall_Arguments L (OllamaToolCall c i) =
     api_ToolCallFunction.Arguments (api_ToolCall.Function c)"

text \<open>
  \<open>NewOllamaToolCall\<close>: the id is \<open>"tc_" + name + "_" + time.Now().UnixNano()\<close>, where \<open>now\<close>
  is the reading of the clock at this call.
\<close>

definition NewOllamaToolCall :: "int \<Rightarrow> api_ToolCall \<Rightarrow> ToolCall" where
  "NewOllamaToolCall now call =
     OllamaToolCall call
       (''tc_'' @ api_ToolCallFunction.Name (api_ToolCall.Function call) @ ''_'' @ Itoa now)"

section \<open>The five implementations of \<open>llm.Message\<close>\<close>

subsection \<open>\<open>history.HistoryMessage\<close>\<close>

definition HistoryMessage_Role :: "HistoryMessage \<Rightarrow> string" where
  "HistoryMessage_Role m = ARole m"

text \<open>The loop of \<open>Content\<close>: \<open>content += block.Text + " "\<close> for every text block.\<close>

fun HistoryMessage_Content_loop :: "ContentBlock list \<Rightarrow> string \<Rightarrow> string" where
  "HistoryMessage_Content_loop [] content = content"
| "HistoryMessage_Content_loop (block # rest) content =
     HistoryMessage_Content_loop rest
       (if ContentBlock.Type block = ''text'' then content @ ContentBlock.Text block @ '' ''
        else content)"

definition HistoryMessage_Content :: "HistoryMessage \<Rightarrow> string" where
  "HistoryMessage_Content m = TrimSpace (HistoryMessage_Content_loop (AContent m) [])"

definition HistoryMessage_ToolCalls :: "HistoryMessage \<Rightarrow> ToolCall list" where
  "HistoryMessage_ToolCalls m =
     map (\<lambda>block. HistoryToolCall (ContentBlock.ID block) (ContentBlock.Name block)
                   (ContentBlock.Input block))
       (filter (\<lambda>block. ContentBlock.Type block = ''tool_use'') (AContent m))"

text \<open>The first \<open>tool_result\<close> block decides; without one the zero values are returned.\<close>

definition first_tool_result :: "ContentBlock list \<Rightarrow> string \<times> bool" where
  "first_tool_result blocks =
     (case find (\<lambda>block. ContentBlock.Type block = ''tool_result'') blocks of
        Some block \<Rightarrow> (ContentBlock.ToolUseID block, True)
      | None \<Rightarrow> ([], False))"

definition HistoryMessage_ToolResponse :: "HistoryMessage \<Rightarrow> string \<times> bool" where
  "HistoryMessage_ToolResponse m = first_tool_result (AContent m)"

subsection \<open>\<open>openai.Message\<close>\<close>

definition openai_Message_Role :: "openai_Message \<Rightarrow> string" where
  "openai_Message_Role m = MessageParam.Role (Choice.Message (openai_Message.Choice m))"

definition openai_Message_Content :: "openai_Message \<Rightarrow> string" where
  "openai_Message_Content m =
     (case MessageParam.Content (Choice.Message (openai_Message.Choice m)) of
        None \<Rightarrow> [] | Some c \<Rightarrow> c)"

definition openai_Message_ToolCalls :: "openai_Message \<Rightarrow> ToolCall list" where
  "openai_Message_ToolCalls m =
     map ToolCallWrapper (MessageParam.ToolCalls (Choice.Message (openai_Message.Choice m)))"

definition openai_Message_ToolResponse :: "openai_Message \<Rightarrow> string \<times> bool" where
  "openai_Message_ToolResponse m =
     (let id' = MessageParam.ToolCallID (Choice.Message (openai_Message.Choice m))
      in (id', id' \<noteq> []))"

subsection \<open>\<open>anthropic.Message\<close>\<close>

definition anthropic_Message_Role :: "anthropic_Message \<Rightarrow> string" where
  "anthropic_Message_Role m = APIMessage.Role (Msg m)"

text \<open>
  The inner loop of \<open>Content\<close> over the items of an array-valued \<open>block.Content\<close>: an item
  that is a map appends the \<open>%v\<close> of its \<open>"text"\<close> entry when it has one, any other item
  appends its own \<open>%v\<close>.
\<close>

fun Content_items :: "go_lib \<Rightarrow> any list \<Rightarrow> string list \<Rightarrow> string list" where
  "Content_items L [] content = content"
| "Content_items L (item # rest) content =
     Content_items L rest
       (case as_map item of
          Some contentMap \<Rightarrow>
            (case map_of contentMap ''text'' of
               Some text \<Rightarrow> content @ [fmt_Sprint L text]
             | None \<Rightarrow> content)
        | None \<Rightarrow> content @ [fmt_Sprint L item])"

text \<open>
  The outer loop over the blocks. \<open>content\<close> is the one slice declared before the loop,
  so the test \<open>len(content) == 0\<close> of the last branch looks at what all blocks so far
  have appended.
\<close>

fun Content_blocks :: "go_lib \<Rightarrow> ContentBlock list \<Rightarrow> string list \<Rightarrow> string list" where
  "Content_blocks L [] content = content"
| "Content_blocks L (block # rest) content =
     Content_blocks L rest
       (if ContentBlock.Type block = ''text'' then content @ [ContentBlock.Text block]
        else if ContentBlock.Type block = ''tool_result'' then
          (case as_string (ContentBlock.Content block) of
             Some contentStr \<Rightarrow> content @ [contentStr]
           | None \<Rightarrow>
               (let content' =
                  (case as_array (ContentBlock.Content block) of
                     Some contentArray \<Rightarrow> Content_items L contentArray content
                   | None \<Rightarrow> content)
                in if length content' = 0 \<and> ContentBlock.Text block \<noteq> []
                   then content' @ [ContentBlock.Text block] else content'))
        else content)"

definition anthropic_Message_Content :: "go_lib \<Rightarrow> anthropic_Message \<Rightarrow> string" where
  "anthropic_Message_Content L m =
     TrimSpace (Join (Content_blocks L (APIMessage.Content (Msg m)) []) '' '')"

definition anthropic_Message_ToolCalls :: "anthropic_Message \<Rightarrow> ToolCall list" where
  "anthropic_Message_ToolCalls m =
     map (\<lambda>block. anthropic_ToolCall (ContentBlock.ID block) (ContentBlock.Name block)
                   (ContentBlock.Input block))
       (filter (\<lambda>block. ContentBlock.Type block = ''tool_use'') (APIMessage.Content (Msg m)))"

definition anthropic_Message_ToolResponse :: "anthropic_Message \<Rightarrow> string \<times> bool" where
  "anthropic_Message_ToolResponse m = first_tool_result (APIMessage.Content (Msg m))"

subsection \<open>\<open>google.Message\<close>\<close>

text \<open>
  \<open>Candidate.FunctionCalls()\<close> of the SDK: the \<open>FunctionCall\<close> parts of the content, in
  order, and none when the content is nil.
\<close>

fun part_FunctionCall :: "Part \<Rightarrow> genai_FunctionCall option" where
  "part_FunctionCall (FunctionCallPart fc) = Some fc"
| "part_FunctionCall _ = None"

definition FunctionCalls :: "Candidate \<Rightarrow> genai_FunctionCall list" where
  "FunctionCalls c =
     (case Candidate.Content c of
        None \<Rightarrow> []
      | Some ct \<Rightarrow> List.map_filter part_FunctionCall (genai_Content.Parts ct))"

text \<open>\<open>Role\<close>, \<open>Content\<close> and \<open>ToolResponse\<close> read through the content pointer and panic when it is nil.\<close>

definition google_Message_Role :: "google_Message \<Rightarrow> failure + string" where
  "google_Message_Role m =
     (case Candidate.Content (google_Message.Candidate m) of
        None \<Rightarrow> Inl Panic
      | Some ct \<Rightarrow> Inr (genai_Content.Role ct))"

fun part_Text :: "Part \<Rightarrow> string" where
  "part_Text (TextPart text) = text"
| "part_Text _ = []"

definition google_Message_Content :: "google_Message \<Rightarrow> failure + string" where
  "google_Message_Content m =
     (case Candidate.Content (google_Message.Candidate m) of
        None \<Rightarrow> Inl Panic
      | Some ct \<Rightarrow> Inr (concat (map part_Text (genai_Content.Parts ct))))"

definition google_Message_ToolCalls :: "google_Message \<Rightarrow> ToolCall list" where
  "google_Message_ToolCalls m =
     map (\<lambda>(i, call). google_ToolCall call (google_Message.toolCallID m + of_nat i))
       (enumerate 0 (FunctionCalls (google_Message.Candidate m)))"

fun is_FunctionResponsePtr :: "Part \<Rightarrow> bool" where
  "is_FunctionResponsePtr (FunctionResponsePtr r) = True"
| "is_FunctionResponsePtr _ = False"

definition google_Message_ToolResponse :: "google_Message \<Rightarrow> failure + string \<times> bool" where
  "google_Message_ToolResponse m =
     (case Candidate.Content (google_Message.Candidate m) of
        None \<Rightarrow> Inl Panic
      | Some ct \<Rightarrow>
          if list_ex is_FunctionResponsePtr (genai_Content.Parts ct)
          then Inr (''Tool<'' @ Itoa (sint (google_Message.toolCallID m)) @ ''>'', True)
          else Inr ([], False))"

subsection \<open>\<open>ollama.OllamaMessage\<close>\<close>

definition OllamaMessage_Role :: "OllamaMessage \<Rightarrow> string" where
  "OllamaMessage_Role m = api_Message.Role (OllamaMessage.Message m)"

definition OllamaMessage_Content :: "OllamaMessage \<Rightarrow> string" where
  "OllamaMessage_Content m = TrimSpace (api_Message.Content (OllamaMessage.Message m))"

text \<open>
  \<open>ToolCalls\<close> wraps each call with \<open>NewOllamaToolCall\<close>, which reads the clock; \<open>now i\<close>
  is the reading for the call at position \<open>i\<close>.
\<close>

definition OllamaMessage_ToolCalls :: "(nat \<Rightarrow> int) \<Rightarrow> OllamaMessage \<Rightarrow> ToolCall list" where
  "OllamaMessage_ToolCalls now m =
     map (\<lambda>(i, call). NewOllamaToolCall (now i) call)
       (enumerate 0 (api_Message.ToolCalls (OllamaMessage.Message m)))"

definition OllamaMessage_ToolResponse :: "OllamaMessage \<Rightarrow> string \<times> bool" where
  "OllamaMessage_ToolResponse m =
     (OllamaMessage.ToolCallID m, api_Message.Role (OllamaMessage.Message m) = ''tool'')"

subsection \<open>The interface \<open>llm.Message\<close>\<close>

text \<open>A message by its dynamic type; a method call dispatches on it.\<close>

datatype Message =
    HistoryMsg HistoryMessage
  | OpenAIMsg openai_Message
  | AnthropicMsg anthropic_Message
  | GoogleMsg google_Message
  | OllamaMsg OllamaMessage

fun Message_Role :: "Message \<Rightarrow> failure + string" where
  "Message_Role (HistoryMsg m) = Inr (HistoryMessage_Role m)"
| "Message_Role (OpenAIMsg m) = Inr (openai_Message_Role m)"
| "Message_Role (AnthropicMsg m) = Inr (anthropic_Message_Role m)"
| "Message_Role (GoogleMsg m) = google_Message_Role m"
| "Message_Role (OllamaMsg m) = Inr (OllamaMessage_Role m)"

fun Message_Content :: "go_lib \<Rightarrow> Message \<Rightarrow> failure + string" where
  "Message_Content L (HistoryMsg m) = Inr (HistoryMessage_Content m)"
| "Message_Content L (OpenAIMsg m) = Inr (openai_Message_Content m)"
| "Message_Content L (AnthropicMsg m) = Inr (anthropic_Message_Content L m)"
| "Message_Content L (GoogleMsg m) = google_Message_Content m"
| "Message_Content L (OllamaMsg m) = Inr (OllamaMessage_Content m)"

fun Message_ToolCalls :: "(nat \<Rightarrow> int) \<Rightarrow> Message \<Rightarrow> ToolCall list" where
  "Message_ToolCalls now (HistoryMsg m) = HistoryMessage_ToolCalls m"
| "Message_ToolCalls now (OpenAIMsg m) = openai_Message_ToolCalls m"
| "Message_ToolCalls now (AnthropicMsg m) = anthropic_Message_ToolCalls m"
| "Message_ToolCalls now (GoogleMsg m) = google_Message_ToolCalls m"
| "Message_ToolCalls now (OllamaMsg m) = OllamaMessage_ToolCalls now m"

fun Message_ToolResponse :: "Message \<Rightarrow> failure + string \<times> bool" where
  "Message_ToolResponse (HistoryMsg m) = Inr (HistoryMessage_ToolResponse m)"
| "Message_ToolResponse (OpenAIMsg m) = Inr (openai_Message_ToolResponse m)"
| "Message_ToolResponse (AnthropicMsg m) = Inr (anthropic_Message_ToolResponse m)"
| "Message_ToolResponse (GoogleMsg m) = google_Message_ToolResponse m"
| "Message_ToolResponse (OllamaMsg m) = Inr (OllamaMessage_ToolResponse m)"

section \<open>The OpenAI adapter\<close>

subsection \<open>\<open>CreateToolResponse\<close>\<close>

text \<open>What one element \<open>c\<close> of a nested \<open>"content"\<close> array appends to \<open>texts\<close>.\<close>

definition nested_text :: "any \<Rightarrow> string list" where
  "nested_text c =
     (case as_map c of
        Some cMap \<Rightarrow> (case as_string (index_map cMap ''text'') of Some text \<Rightarrow> [text] | None \<Rightarrow> [])
      | None \<Rightarrow> [])"

text \<open>
  What one \<open>item\<close> of a \<open>[]any\<close> content appends to \<open>texts\<close>: a string \<open>"text"\<close>, else the
  strings of an array \<open>"text"\<close>, else the texts of a nested \<open>"content"\<close> array.
\<close>

definition item_texts :: "any \<Rightarrow> string list" where
  "item_texts item =
     (case as_map item of
        None \<Rightarrow> []
      | Some block \<Rightarrow>
          (case as_string (index_map block ''text'') of
             Some text \<Rightarrow> [text]
           | None \<Rightarrow>
               (case as_array (index_map block ''text'') of
                  Some textArray \<Rightarrow> List.map_filter as_string textArray
                | None \<Rightarrow>
                    (case as_array (index_map block ''content'') of
                       Some contentArray \<Rightarrow> concat (map nested_text contentArray)
                     | None \<Rightarrow> []))))"

text \<open>The type switch that converts \<open>content\<close> to \<open>contentStr\<close>, with its two error returns.\<close>

definition openai_contentStr :: "go_lib \<Rightarrow> any \<Rightarrow> failure + string" where
  "openai_contentStr L content =
     (case content of
        AString v \<Rightarrow> Inr v
      | AArray v \<Rightarrow>
          (let contentStr = Join (concat (map item_texts v)) [CHR 0x0A]
           in if contentStr = [] then
                (case json_Marshal L (AArray v) of
                   None \<Rightarrow> Inl (Error ''failed to marshal array content'')
                 | Some jsonBytes \<Rightarrow> Inr jsonBytes)
              else Inr contentStr)
      | _ \<Rightarrow>
          (case json_Marshal L content of
             None \<Rightarrow> Inl (Error ''failed to marshal tool response'')
           | Some jsonBytes \<Rightarrow> Inr jsonBytes))"

definition openai_CreateToolResponse :: "go_lib \<Rightarrow> string \<Rightarrow> any \<Rightarrow> failure + openai_Message" where
  "openai_CreateToolResponse L toolCallID' content =
     (case openai_contentStr L content of
        Inl f \<Rightarrow> Inl f
      | Inr contentStr \<Rightarrow>
          (let contentStr' =
                 (if contentStr = [] then ''No content returned from tool'' else contentStr);
               choice = \<lparr>Choice.Message =
                          \<lparr>MessageParam.Role = ''tool'',
                           MessageParam.Content = Some contentStr',
                           MessageParam.ToolCalls = [],
                           MessageParam.ToolCallID = toolCallID'\<rparr>\<rparr>
           in Inr \<lparr>openai_Message.Resp = \<lparr>APIResponse.Choices = [choice]\<rparr>,
                   openai_Message.Choice = choice\<rparr>))"

subsection \<open>\<open>SendMessage\<close>\<close>

text \<open>
  The loop that fills \<open>param.ToolCalls\<close>; \<open>None\<close> when \<open>json.Marshal\<close> fails for a call,
  where \<open>SendMessage\<close> returns its error.
\<close>

fun encode_calls :: "go_lib \<Rightarrow> ToolCall list \<Rightarrow> openai_ToolCall list option" where
  "encode_calls L [] = Some []"
| "encode_calls L (call # rest) =
     (case json_Marshal L (AMap (ToolCall_Arguments L call)) of
        None \<Rightarrow> None
      | Some args \<Rightarrow>
          (case encode_calls L rest of
             None \<Rightarrow> None
           | Some tcs \<Rightarrow>
               Some (\<lparr>openai_ToolCall.ID = ToolCall_ID call,
                      openai_ToolCall.Type = ''function'',
                      openai_ToolCall.Function =
                        \<lparr>FunctionCall.Name = ToolCall_Name call,
                         FunctionCall.Arguments = args\<rparr>\<rparr> # tcs)))"

text \<open>
  The texts taken from the \<open>tool_result\<close> blocks of a stored turn whose \<open>Content()\<close> is
  empty.
\<close>

definition result_item_text :: "go_lib \<Rightarrow> any \<Rightarrow> string list" where
  "result_item_text L item =
     (case as_map item of
        Some contentMap \<Rightarrow>
          (case map_of contentMap ''text'' of Some text \<Rightarrow> [fmt_Sprint L text] | None \<Rightarrow> [])
      | None \<Rightarrow> [])"

definition result_block_texts :: "go_lib \<Rightarrow> ContentBlock \<Rightarrow> string list" where
  "result_block_texts L block =
     (if ContentBlock.Type block = ''tool_result'' then
        (if ContentBlock.Text block \<noteq> [] then [ContentBlock.Text block]
         else (case as_array (ContentBlock.Content block) of
                 Some contentArray \<Rightarrow> concat (map (result_item_text L) contentArray)
               | None \<Rightarrow> []))
      else [])"

definition tool_response_content :: "go_lib \<Rightarrow> Message \<Rightarrow> string \<Rightarrow> string" where
  "tool_response_content L msg content =
     (if content \<noteq> [] then content
      else (case msg of
              HistoryMsg historyMsg \<Rightarrow>
                Join (concat (map (result_block_texts L) (AContent historyMsg))) [CHR 0x0A]
            | _ \<Rightarrow> []))"

text \<open>
  The body of the loop over the prior messages: the \<open>MessageParam\<close> appended for \<open>msg\<close>, or
  the failure that ends \<open>SendMessage\<close>. \<open>now\<close> are the clock readings of \<open>msg.ToolCalls()\<close>.
\<close>

definition openai_convert_message :: "go_lib \<Rightarrow> (nat \<Rightarrow> int) \<Rightarrow> Message \<Rightarrow> failure + MessageParam" where
  "openai_convert_message L now msg =
     (case Message_Role msg of
        Inl f \<Rightarrow> Inl f
      | Inr role \<Rightarrow>
     (case Message_Content L msg of
        Inl f \<Rightarrow> Inl f
      | Inr content \<Rightarrow>
     (let param = \<lparr>MessageParam.Role = role,
                   MessageParam.Content = (if content \<noteq> [] then Some content else None),
                   MessageParam.ToolCalls = [],
                   MessageParam.ToolCallID = []\<rparr>;
          toolCalls = Message_ToolCalls now msg
      in
     (case (if length toolCalls > 0 then
              (case encode_calls L toolCalls of
                 None \<Rightarrow> Inl (Error ''error marshaling function arguments'')
               | Some tcs \<Rightarrow>
                   Inr (param\<lparr>MessageParam.Content := None, MessageParam.ToolCalls := tcs\<rparr>))
            else Inr param) of
        Inl f \<Rightarrow> Inl f
      | Inr param \<Rightarrow>
     (case Message_ToolResponse msg of
        Inl f \<Rightarrow> Inl f
      | Inr (toolCallID', ok) \<Rightarrow>
          if ok then
            (let contentStr = tool_response_content L msg content;
                 contentStr' = (if contentStr = [] then ''No content returned from function''
                                else contentStr)
             in Inr (param\<lparr>MessageParam.Content := Some contentStr',
                           MessageParam.Role := ''tool'',
                           MessageParam.ToolCallID := toolCallID'\<rparr>))
          else Inr param)))))"

text \<open>The loop itself; \<open>now j\<close> are the clock readings while message \<open>j\<close> is converted.\<close>

fun openai_convert_messages ::
  "go_lib \<Rightarrow> (nat \<Rightarrow> nat \<Rightarrow> int) \<Rightarrow> nat \<Rightarrow> Message list \<Rightarrow> failure + MessageParam list" where
  "openai_convert_messages L now j [] = Inr []"
| "openai_convert_messages L now j (msg # rest) =
     (case openai_convert_message L (now j) msg of
        Inl f \<Rightarrow> Inl f
      | Inr param \<Rightarrow>
          (case openai_convert_messages L now (Suc j) rest of
             Inl f \<Rightarrow> Inl f
           | Inr params \<Rightarrow> Inr (param # params)))"

text \<open>The message list of the request: the converted messages, then the prompt when it is not empty.\<close>

definition openai_messages ::
  "go_lib \<Rightarrow> (nat \<Rightarrow> nat \<Rightarrow> int) \<Rightarrow> string \<Rightarrow> Message list \<Rightarrow> failure + MessageParam list" where
  "openai_messages L now prompt messages =
     (case openai_convert_messages L now 0 messages of
        Inl f \<Rightarrow> Inl f
      | Inr openaiMessages \<Rightarrow>
          Inr (if prompt \<noteq> [] then
                 openaiMessages @
                   [\<lparr>MessageParam.Role = ''user'', MessageParam.Content = Some prompt,
                     MessageParam.ToolCalls = [], MessageParam.ToolCallID = []\<rparr>]
               else openaiMessages))"

definition convertSchema :: "llm_Schema \<Rightarrow> gomap" where
  "convertSchema schema =
     [(''type'', AString (llm_Schema.Type schema)),
      (''properties'', AMap (llm_Schema.Properties schema)),
      (''required'', AStrings (llm_Schema.Required schema))]"

record FunctionDef =
  Name :: string
  Description :: string
  Parameters :: gomap

record openai_Tool =
  Type :: string
  Function :: FunctionDef

text \<open>The request, without its constant \<open>Temperature\<close> of 0.7.\<close>

record CreateRequest =
  Model :: string
  Messages :: "MessageParam list"
  Tools :: "openai_Tool list"
  MaxTokens :: nat

text \<open>
  \<open>SendMessage\<close> of \<open>openai.Provider\<close>; \<open>CreateChatCompletion\<close> is the client's call, which
  answers a request with an error or a response.
\<close>

definition openai_SendMessage ::
  "go_lib \<Rightarrow> (nat \<Rightarrow> nat \<Rightarrow> int) \<Rightarrow> (CreateRequest \<Rightarrow> failure + APIResponse) \<Rightarrow> string
     \<Rightarrow> string \<Rightarrow> Message list \<Rightarrow> Tool list \<Rightarrow> failure + openai_Message" where
  "openai_SendMessage L now CreateChatCompletion model prompt messages tools =
     (case openai_messages L now prompt messages of
        Inl f \<Rightarrow> Inl f
      | Inr openaiMessages \<Rightarrow>
          (let openaiTools =
                 map (\<lambda>tool. \<lparr>openai_Tool.Type = ''function'',
                              openai_Tool.Function =
                                \<lparr>FunctionDef.Name = Tool.Name tool,
                                 FunctionDef.Description = Tool.Description tool,
                                 FunctionDef.Parameters = convertSchema (Tool.InputSchema tool)\<rparr>\<rparr>)
                   tools
           in case CreateChatCompletion
                     \<lparr>CreateRequest.Model = model, CreateRequest.Messages = openaiMessages,
                      CreateRequest.Tools = openaiTools, CreateRequest.MaxTokens = 4096\<rparr> of
                Inl f \<Rightarrow> Inl f
              | Inr resp \<Rightarrow>
                  (case APIResponse.Choices resp of
                     [] \<Rightarrow> Inl (Error ''no choices in response'')
                   | choice # others \<Rightarrow>
                       Inr \<lparr>openai_Message.Resp = resp, openai_Message.Choice = choice\<rparr>)))"

section \<open>The Anthropic and Ollama adapters: \<open>CreateToolResponse\<close>\<close>

definition anthropic_CreateToolResponse :: "go_lib \<Rightarrow> string \<Rightarrow> any \<Rightarrow> anthropic_Message" where
  "anthropic_CreateToolResponse L toolCallID' content =
     (let contentStr =
            (case content of
               AString v \<Rightarrow> v
             | ABytes v \<Rightarrow> v
             | _ \<Rightarrow> (case json_Marshal L content of
                       Some jsonBytes \<Rightarrow> jsonBytes
                     | None \<Rightarrow> fmt_Sprint L content))
      in \<lparr>Msg = \<lparr>APIMessage.Role = ''tool'',
                 APIMessage.Content =
                   [\<lparr>ContentBlock.Type = ''tool_result'', ContentBlock.Text = contentStr,
                     ContentBlock.ID = [], ContentBlock.ToolUseID = toolCallID',
                     ContentBlock.Name = [], ContentBlock.Input = [],
                     ContentBlock.Content = content\<rparr>]\<rparr>\<rparr>)"

definition ollama_CreateToolResponse :: "go_lib \<Rightarrow> string \<Rightarrow> any \<Rightarrow> failure + OllamaMessage" where
  "ollama_CreateToolResponse L toolCallID' content =
     (case (case content of
              AString v \<Rightarrow> Some v
            | _ \<Rightarrow> json_Marshal L content) of
        None \<Rightarrow> Inl (Error ''error marshaling tool response'')
      | Some contentStr \<Rightarrow>
          Inr \<lparr>OllamaMessage.Message =
                 \<lparr>api_Message.Role = ''tool'', api_Message.Content = contentStr,
                  api_Message.ToolCalls = []\<rparr>,
               OllamaMessage.ToolCallID = toolCallID'\<rparr>)"

section \<open>The Google adapter\<close>

subsection \<open>Schema translation\<close>

fun toType :: "string \<Rightarrow> genai_Type" where
  "toType t =
     (if t = ''string'' then TypeString
      else if t = ''boolean'' then TypeBoolean
      else if t = ''object'' then TypeObject
      else if t = ''array'' then TypeArray
      else TypeUnspecified)"

lemma size_map_of: "map_of kvs k = Some v \<Longrightarrow> size v < size (AMap kvs)"
  by (induction kvs) (auto split: if_splits)

lemma size_index_map: "as_map (index_map kvs k) = Some m \<Longrightarrow> size (AMap m) < size (AMap kvs)"
  by (cases "index_map kvs k") (auto simp: index_map_def split: option.splits dest: size_map_of)

text \<open>
  \<open>propertyToGoogleSchema\<close>, and the loop
  \<open>for name, prop := range ... { s.Properties[name] = propertyToGoogleSchema(prop.(map[string]any)) }\<close>
  that both it and \<open>translateToGoogleSchema\<close> run. The type assertions without
  \<open>ok\<close> panic; the one of \<open>"description"\<close> has it. The loop visits the entries in the
  order of the list.
\<close>

function propertyToGoogleSchema :: "gomap \<Rightarrow> failure + genai_Schema"
  and range_properties :: "gomap \<Rightarrow> failure + (string \<times> genai_Schema) list"
where
  "propertyToGoogleSchema properties =
     (case as_string (index_map properties ''type'') of
        None \<Rightarrow> Inl Panic
      | Some t \<Rightarrow>
          (let desc = (case as_string (index_map properties ''description'') of
                         Some d \<Rightarrow> d | None \<Rightarrow> [])
           in if toType t = TypeObject then
                (case as_map (index_map properties ''properties'') of
                   None \<Rightarrow> Inl Panic
                 | Some objectProperties \<Rightarrow>
                     (case range_properties objectProperties of
                        Inl f \<Rightarrow> Inl f
                      | Inr ps \<Rightarrow> Inr (Schema TypeObject desc False ps None [])))
              else if toType t = TypeArray then
                (case as_map (index_map properties ''items'') of
                   None \<Rightarrow> Inl Panic
                 | Some itemProperties \<Rightarrow>
                     (case propertyToGoogleSchema itemProperties of
                        Inl f \<Rightarrow> Inl f
                      | Inr items \<Rightarrow> Inr (Schema TypeArray desc False [] (Some items) [])))
              else Inr (Schema (toType t) desc False [] None [])))"
| "range_properties [] = Inr []"
| "range_properties ((name, p) # rest) =
     (case as_map p of
        None \<Rightarrow> Inl Panic
      | Some m \<Rightarrow>
          (case propertyToGoogleSchema m of
             Inl f \<Rightarrow> Inl f
           | Inr s \<Rightarrow>
               (case range_properties rest of
                  Inl f \<Rightarrow> Inl f
                | Inr ps \<Rightarrow> Inr ((name, s) # ps))))"
  by pat_completeness auto
termination
proof (relation "measure (\<lambda>x. case x of Inl p \<Rightarrow> 2 * size (AMap p)
                                        | Inr ps \<Rightarrow> 2 * size (AMap ps) + 1)", goal_cases)
  case 1
  show ?case by simp
next
  case (2 properties t d objectProperties)
  then show ?case
    using size_index_map[of properties "''properties''" objectProperties] by simp
next
  case (3 properties t d itemProperties)
  then show ?case
    using size_index_map[of properties "''items''" itemProperties] by simp
next
  case (4 name p rest m)
  then show ?case by (cases p) auto
next
  case (5 name p rest m s)
  then show ?case by simp
qed

declare propertyToGoogleSchema.simps [simp del]

definition translateToGoogleSchema :: "llm_Schema \<Rightarrow> failure + genai_Schema" where
  "translateToGoogleSchema schema =
     (case range_properties (llm_Schema.Properties schema) of
        Inl f \<Rightarrow> Inl f
      | Inr ps \<Rightarrow>
          if length ps = 0 then
            Inr (Schema (toType (llm_Schema.Type schema)) [] True
                   [(''unused'', Schema TypeInteger [] True [] None [])]
                   None (llm_Schema.Required schema))
          else
            Inr (Schema (toType (llm_Schema.Type schema)) [] False ps
                   None (llm_Schema.Required schema)))"

subsection \<open>\<open>SendMessage\<close> and the tool-call counter\<close>

record FunctionDeclaration =
  Name :: string
  Description :: string
  Parameters :: genai_Schema


text \<open>
  Of a \<open>google.Provider\<close> the model keeps the counter; \<open>client\<close>, \<open>model\<close> and \<open>chat\<close> are
  handles of the SDK, whose call is a parameter of \<open>SendMessage\<close> below. \<open>NewProvider\<close>
  leaves the counter at its zero value.
\<close>

record google_Provider =
  toolCallID :: go_int

definition google_NewProvider :: google_Provider where
  "google_NewProvider = \<lparr>google_Provider.toolCallID = 0\<rparr>"









text \<open>\<open>CreateToolResponse\<close> of \<open>google.Provider\<close> returns \<open>nil, nil\<close>: no message and no error.\<close>

definition google_CreateToolResponse :: "google_Provider \<Rightarrow> string \<Rightarrow> any \<Rightarrow> failure + Message option" where
  "google_CreateToolResponse p toolCallID' content = Inr None"

section \<open>The interface \<open>llm.Provider\<close>\<close>

datatype Provider = OpenAI | Anthropic | Google google_Provider | Ollama

text \<open>\<open>CreateToolResponse\<close> through the interface; \<open>None\<close> is the nil \<open>llm.Message\<close>.\<close>

fun CreateToolResponse :: "go_lib \<Rightarrow> Provider \<Rightarrow> string \<Rightarrow> any \<Rightarrow> failure + Message option" where
  "CreateToolResponse L OpenAI toolCallID' content =
     (case openai_CreateToolResponse L toolCallID' content of
        Inl f \<Rightarrow> Inl f | Inr m \<Rightarrow> Inr (Some (OpenAIMsg m)))"
| "CreateToolResponse L Anthropic toolCallID' content =
     Inr (Some (AnthropicMsg (anthropic_CreateToolResponse L toolCallID' content)))"
| "CreateToolResponse L (Google p) toolCallID' content =
     google_CreateToolResponse p toolCallID' content"
| "CreateToolResponse L Ollama toolCallID' content =
     (case ollama_CreateToolResponse L toolCallID' content of
        Inl f \<Rightarrow> Inl f | Inr m \<Rightarrow> Inr (Some (OllamaMsg m)))"

section \<open>A library instance for the examples\<close>

text \<open>
  The examples below are evaluated with this instance of the library. It agrees with Go's
  on the values the examples use: the JSON texts \<open>{}\<close> and \<open>{"location":"Paris"}\<close> decode
  to the empty map and to the map with the one entry, these two maps encode as those
  texts, and \<open>%v\<close> prints a string as it is. On every other value it reports an error,
  or prints \<open>?\<close>; no example depends on those.
\<close>

definition sample_lib :: go_lib where
  \<open>sample_lib =
     \<lparr>json_Marshal =
        (\<lambda>v. if v = AMap [] then Some ''{}''
             else if v = AMap [(''location'', AString ''Paris'')]
               then Some ''{"location":"Paris"}''
             else None),
      json_Unmarshal =
        (\<lambda>raw. if raw = ''{}'' then Some []
               else if raw = ''{"location":"Paris"}''
                 then Some [(''location'', AString ''Paris'')]
               else None),
      fmt_Sprint = (\<lambda>v. case v of AString s \<Rightarrow> s | _ \<Rightarrow> ''?'')\<rparr>\<close>

text \<open>
  Tool schemas for the examples: the \<open>get_weather\<close> tool with its one required string
  property, a schema with an array of objects, a tool without arguments, and a schema
  whose array items lack a \<open>"type"\<close>.
\<close>

definition weather_schema :: llm_Schema where
  "weather_schema =
     \<lparr>llm_Schema.Type = ''object'',
      llm_Schema.Properties =
        [(''location'', AMap [(''type'', AString ''string''),
                              (''description'', AString ''City name'')])],
      llm_Schema.Required = [''location'']\<rparr>"


definition no_argument_schema :: llm_Schema where
  "no_argument_schema =
     \<lparr>llm_Schema.Type = ''object'', llm_Schema.Properties = [], llm_Schema.Required = []\<rparr>"









definition stray_tool_use :: HistoryMessage where
  \<open>stray_tool_use =
     \<lparr>ARole = ''user'',
      AContent = [\<lparr>ContentBlock.Type = ''tool_use'', ContentBlock.Text = [],
                   ContentBlock.ID = ''call_1'', ContentBlock.ToolUseID = [],
                   ContentBlock.Name = ''get_weather'',
                   ContentBlock.Input = ''{"location":"Paris"}'',
                   ContentBlock.Content = ANil\<rparr>]\<rparr>\<close>

text \<open>
  Anthropic messages: a tool result whose content array holds a text map and a plain
  string; a text block followed by a tool result that has only its raw text; a text block
  followed by a tool result with a text map.
\<close>

definition mixed_result :: anthropic_Message where
  "mixed_result =
     \<lparr>Msg = \<lparr>APIMessage.Role = ''tool'',
              APIMessage.Content =
                [\<lparr>ContentBlock.Type = ''tool_result'', ContentBlock.Text = ''raw'',
                  ContentBlock.ID = [], ContentBlock.ToolUseID = ''call_1'',
                  ContentBlock.Name = [], ContentBlock.Input = [],
                  ContentBlock.Content =
                    AArray [AMap [(''type'', AString ''text''), (''text'', AString ''sunny'')],
                            AString ''cloudy'']\<rparr>]\<rparr>\<rparr>"

definition late_result :: anthropic_Message where
  "late_result =
     \<lparr>Msg = \<lparr>APIMessage.Role = ''assistant'',
              APIMessage.Content =
                [\<lparr>ContentBlock.Type = ''text'', ContentBlock.Text = ''Result:'',
                  ContentBlock.ID = [], ContentBlock.ToolUseID = [],
                  ContentBlock.Name = [], ContentBlock.Input = [],
                  ContentBlock.Content = ANil\<rparr>,
                 \<lparr>ContentBlock.Type = ''tool_result'', ContentBlock.Text = ''sunny'',
                  ContentBlock.ID = [], ContentBlock.ToolUseID = ''call_1'',
                  ContentBlock.Name = [], ContentBlock.Input = [],
                  ContentBlock.Content = ANil\<rparr>]\<rparr>\<rparr>"

definition text_then_result :: anthropic_Message where
  "text_then_result =
     \<lparr>Msg = \<lparr>APIMessage.Role = ''assistant'',
              APIMessage.Content =
                [\<lparr>ContentBlock.Type = ''text'', ContentBlock.Text = '' Result: '',
                  ContentBlock.ID = [], ContentBlock.ToolUseID = [],
                  ContentBlock.Name = [], ContentBlock.Input = [],
                  ContentBlock.Content = ANil\<rparr>,
                 \<lparr>ContentBlock.Type = ''tool_result'', ContentBlock.Text = ''raw'',
                  ContentBlock.ID = [], ContentBlock.ToolUseID = ''call_1'',
                  ContentBlock.Name = [], ContentBlock.Input = [],
                  ContentBlock.Content =
                    AArray [AMap [(''type'', AString ''text''), (''text'', AString ''sunny'')]]\<rparr>]\<rparr>\<rparr>"

section \<open>Properties\<close>

subsection \<open>Content of a stored turn\<close>

lemma Content_loop_append:
  "HistoryMessage_Content_loop blocks content =
     content @ concat (map (\<lambda>b. ContentBlock.Text b @ '' '')
                        (filter (\<lambda>b. ContentBlock.Type b = ''text'') blocks))"
  by (induction blocks arbitrary: content) auto

lemma concat_blank_Join:
  "texts \<noteq> [] \<Longrightarrow> concat (map (\<lambda>t. t @ '' '') texts) = Join texts '' '' @ '' ''"
  by (induction texts "'' ''" rule: Join.induct) auto

lemma TrimSpace_concat_blank:
  "TrimSpace (concat (map (\<lambda>t. t @ '' '') texts)) = TrimSpace (Join texts '' '')"
proof (cases "texts = []")
  case True
  then show ?thesis by simp
next
  case False
  then show ?thesis
    using TrimSpace_append_blank[of "Join texts '' ''"] by (simp add: concat_blank_Join)
qed

lemma TrimSpace_a_b: "TrimSpace ''a b'' = ''a b''"
  by code_simp

text \<open>
  Claim C8. \<open>HistoryMessage.Content()\<close> is the texts of the blocks of type \<open>text\<close>, in block
  order, joined with one blank and trimmed by \<open>strings.TrimSpace\<close>. A turn whose blocks
  are two text blocks \<open>a\<close> and \<open>b\<close> gives \<open>a b\<close>, and a turn without blocks gives the
  empty string.
\<close>

theorem HistoryMessage_Content_joined:
  "HistoryMessage_Content m =
     TrimSpace (Join (map ContentBlock.Text
                        (filter (\<lambda>b. ContentBlock.Type b = ''text'') (AContent m))) '' '')
   \<and> HistoryMessage_Content
        (m\<lparr>AContent := [b1\<lparr>ContentBlock.Type := ''text'', ContentBlock.Text := ''a''\<rparr>,
                         b2\<lparr>ContentBlock.Type := ''text'', ContentBlock.Text := ''b''\<rparr>]\<rparr>) = ''a b''
   \<and> HistoryMessage_Content (m\<lparr>AContent := []\<rparr>) = []"
proof (intro conjI)
  have eq: "HistoryMessage_Content m =
     TrimSpace (Join (map ContentBlock.Text
                        (filter (\<lambda>b. ContentBlock.Type b = ''text'') (AContent m))) '' '')" for m
    unfolding HistoryMessage_Content_def Content_loop_append
    using TrimSpace_concat_blank[of "map ContentBlock.Text
                        (filter (\<lambda>b. ContentBlock.Type b = ''text'') (AContent m))"]
    by (simp add: comp_def)
  show "HistoryMessage_Content m =
     TrimSpace (Join (map ContentBlock.Text
                        (filter (\<lambda>b. ContentBlock.Type b = ''text'') (AContent m))) '' '')"
    by (rule eq)
  show "HistoryMessage_Content
        (m\<lparr>AContent := [b1\<lparr>ContentBlock.Type := ''text'', ContentBlock.Text := ''a''\<rparr>,
                         b2\<lparr>ContentBlock.Type := ''text'', ContentBlock.Text := ''b''\<rparr>]\<rparr>) = ''a b''"
    by (simp add: eq TrimSpace_a_b)
  show "HistoryMessage_Content (m\<lparr>AContent := []\<rparr>) = []"
    by (simp add: eq TrimSpace_Nil)
qed

subsection \<open>Arguments of a tool call\<close>

text \<open>
  Claim C6. For the tool calls of the history, of the OpenAI adapter and of the Anthropic
  adapter: when \<open>json.Unmarshal\<close> reports an error for the stored raw arguments,
  \<open>Arguments()\<close> is the empty map, and when it decodes them, \<open>Arguments()\<close> is the decoded
  map. \<open>Arguments()\<close> has no error result.
\<close>

theorem Arguments_decode:
  "(json_Unmarshal L raw = None \<longrightarrow>
      ToolCall_Arguments L (HistoryToolCall i n raw) = []
    \<and> ToolCall_Arguments L
        (ToolCallWrapper (c\<lparr>openai_ToolCall.Function :=
           (openai_ToolCall.Function c)\<lparr>FunctionCall.Arguments := raw\<rparr>\<rparr>)) = []
    \<and> ToolCall_Arguments L (anthropic_ToolCall i n raw) = [])
 \<and> (json_Unmarshal L raw = Some args \<longrightarrow>
      ToolCall_Arguments L (HistoryToolCall i n raw) = args
    \<and> ToolCall_Arguments L
        (ToolCallWrapper (c\<lparr>openai_ToolCall.Function :=
           (openai_ToolCall.Function c)\<lparr>FunctionCall.Arguments := raw\<rparr>\<rparr>)) = args
    \<and> ToolCall_Arguments L (anthropic_ToolCall i n raw) = args)"
  by (simp add: unmarshal_args_def)

theorem Arguments_decode_witness:
  \<open>json_Unmarshal sample_lib ''{"location":'' = None
   \<and> ToolCall_Arguments sample_lib (HistoryToolCall ''call_1'' ''get_weather'' ''{"location":'') = []
   \<and> ToolCall_Arguments sample_lib (anthropic_ToolCall ''call_1'' ''get_weather'' ''{"location":'') = []
   \<and> json_Unmarshal sample_lib ''{"location":"Paris"}'' = Some [(''location'', AString ''Paris'')]
   \<and> ToolCall_Arguments sample_lib
         (HistoryToolCall ''call_1'' ''get_weather'' ''{"location":"Paris"}'')
       = [(''location'', AString ''Paris'')]
   \<and> ToolCall_Arguments sample_lib
         (anthropic_ToolCall ''call_1'' ''get_weather'' ''{"location":"Paris"}'')
       = [(''location'', AString ''Paris'')]\<close>
  using Arguments_decode[of sample_lib \<open>''{"location":''\<close> \<open>''call_1''\<close> \<open>''get_weather''\<close> _ \<open>[]\<close>]
        Arguments_decode[of sample_lib \<open>''{"location":"Paris"}''\<close> \<open>''call_1''\<close> \<open>''get_weather''\<close> _
                            \<open>[(''location'', AString ''Paris'')]\<close>]
  by (simp add: sample_lib_def)


subsection \<open>Translation of a tool schema for Google\<close>

text \<open>
  The precondition of claim C9, in its words: a property description is a map with a
  string \<open>"type"\<close> entry; one of type \<open>object\<close> has a \<open>"properties"\<close> map, whose
  values are property descriptions again; one of type \<open>array\<close> has an \<open>"items"\<close> map, which
  is a property description again. \<open>properties_ok\<close> says that every value of a properties
  map is such a map.
\<close>

function property_ok :: "gomap \<Rightarrow> bool"
  and properties_ok :: "gomap \<Rightarrow> bool"
where
  "property_ok properties =
     (case as_string (index_map properties ''type'') of
        None \<Rightarrow> False
      | Some t \<Rightarrow>
          if t = ''object'' then
            (case as_map (index_map properties ''properties'') of
               None \<Rightarrow> False
             | Some nested \<Rightarrow> properties_ok nested)
          else if t = ''array'' then
            (case as_map (index_map properties ''items'') of
               None \<Rightarrow> False
             | Some items \<Rightarrow> property_ok items)
          else True)"
| "properties_ok [] = True"
| "properties_ok ((name, v) # rest) =
     (case as_map v of
        None \<Rightarrow> False
      | Some m \<Rightarrow> property_ok m \<and> properties_ok rest)"
  by pat_completeness auto
termination
proof (relation "measure (\<lambda>x. case x of Inl p \<Rightarrow> 2 * size (AMap p)
                                        | Inr ps \<Rightarrow> 2 * size (AMap ps) + 1)", goal_cases)
  case 1
  show ?case by simp
next
  case (2 properties t nested)
  then show ?case
    using size_index_map[of properties "''properties''" nested] by simp
next
  case (3 properties t items)
  then show ?case
    using size_index_map[of properties "''items''" items] by simp
next
  case (4 name v rest m)
  then show ?case by (cases v) auto
next
  case (5 name v rest m)
  then show ?case by simp
qed

declare property_ok.simps [simp del]

lemma toType_object: "toType t = TypeObject \<longleftrightarrow> t = ''object''"
  by simp

lemma toType_array: "toType t = TypeArray \<longleftrightarrow> t = ''array''"
  by simp

declare toType.simps [simp del]

text \<open>Translation returns a schema on the well-formed descriptions and panics on the others.\<close>

lemma translation_total:
  "(property_ok p \<longrightarrow> (\<exists>s. propertyToGoogleSchema p = Inr s))
     \<and> (\<not> property_ok p \<longrightarrow> propertyToGoogleSchema p = Inl Panic)"
  "(properties_ok ps \<longrightarrow> (\<exists>r. range_properties ps = Inr r))
     \<and> (\<not> properties_ok ps \<longrightarrow> range_properties ps = Inl Panic)"
proof (induction p and ps rule: propertyToGoogleSchema_range_properties.induct)
  case (1 properties)
  note unfold = propertyToGoogleSchema.simps[of properties] property_ok.simps[of properties]
  show ?case
  proof (cases "as_string (index_map properties ''type'')")
    case None
    then show ?thesis by (simp add: unfold)
  next
    case (Some t)
    show ?thesis
    proof (cases "t = ''object''")
      case True
      show ?thesis
      proof (cases "as_map (index_map properties ''properties'')")
        case None
        with Some True show ?thesis by (simp add: unfold toType_object)
      next
        case (Some nested)
        with \<open>as_string _ = Some t\<close> True "1.IH"(1)[of t _ nested] show ?thesis
          by (auto simp add: unfold toType_object split: sum.splits)
      qed
    next
      case False
      note not_object = this
      show ?thesis
      proof (cases "t = ''array''")
        case True
        show ?thesis
        proof (cases "as_map (index_map properties ''items'')")
          case None
          with Some True show ?thesis by (simp add: unfold toType_object toType_array)
        next
          case (Some items)
          with \<open>as_string _ = Some t\<close> True "1.IH"(2)[of t _ items] show ?thesis
            by (auto simp add: unfold toType_object toType_array split: sum.splits)
        qed
      next
        case False
        with Some not_object show ?thesis by (simp add: unfold toType_object toType_array)
      qed
    qed
  qed
next
  case 2
  show ?case by simp
next
  case (3 name p rest)
  show ?case
  proof (cases "as_map p")
    case None
    then show ?thesis by simp
  next
    case (Some m)
    then show ?thesis using "3.IH"(1)[of m] "3.IH"(2)[of m]
      by (auto split: sum.splits)
  qed
qed

lemma range_properties_names:
  "range_properties kvs = Inr ps \<Longrightarrow> map fst ps = map fst kvs"
proof (induction kvs arbitrary: ps)
  case Nil
  then show ?case by simp
next
  case (Cons kv kvs)
  obtain name v where kv: "kv = (name, v)" by (cases kv)
  from Cons.prems kv show ?case
    by (auto split: option.splits sum.splits dest: Cons.IH)
qed

lemma range_properties_failure:
  "range_properties kvs = Inl f \<Longrightarrow> f = Panic"
  using translation_total(2)[of kvs] by auto

text \<open>
  Claim C3. A schema whose properties map is empty (or nil) is translated, without
  failure, to a schema that is marked nullable and has exactly one property: \<open>unused\<close>,
  of type integer and marked nullable. For a schema with at least one property the
  translation either panics or returns a schema that is not marked nullable and whose
  properties are the translations of the schema's own, under the same names in the same
  order: none is injected.
\<close>

theorem zero_argument_workaround:
  "(llm_Schema.Properties schema = [] \<longrightarrow>
      translateToGoogleSchema schema =
        Inr (Schema (toType (llm_Schema.Type schema)) [] True
               [(''unused'', Schema TypeInteger [] True [] None [])]
               None (llm_Schema.Required schema)))
   \<and> (llm_Schema.Properties schema \<noteq> [] \<longrightarrow>
        translateToGoogleSchema schema = Inl Panic
        \<or> (\<exists>ps. range_properties (llm_Schema.Properties schema) = Inr ps
                \<and> map fst ps = map fst (llm_Schema.Properties schema)
                \<and> translateToGoogleSchema schema =
                    Inr (Schema (toType (llm_Schema.Type schema)) [] False ps
                           None (llm_Schema.Required schema))))"
proof (intro conjI impI)
  assume "llm_Schema.Properties schema = []"
  then show "translateToGoogleSchema schema =
        Inr (Schema (toType (llm_Schema.Type schema)) [] True
               [(''unused'', Schema TypeInteger [] True [] None [])]
               None (llm_Schema.Required schema))"
    by (simp add: translateToGoogleSchema_def)
next
  assume nonempty: "llm_Schema.Properties schema \<noteq> []"
  show "translateToGoogleSchema schema = Inl Panic
        \<or> (\<exists>ps. range_properties (llm_Schema.Properties schema) = Inr ps
                \<and> map fst ps = map fst (llm_Schema.Properties schema)
                \<and> translateToGoogleSchema schema =
                    Inr (Schema (toType (llm_Schema.Type schema)) [] False ps
                           None (llm_Schema.Required schema)))"
  proof (cases "range_properties (llm_Schema.Properties schema)")
    case (Inl f)
    then show ?thesis
      by (simp add: translateToGoogleSchema_def range_properties_failure)
  next
    case (Inr ps)
    then have names: "map fst ps = map fst (llm_Schema.Properties schema)"
      by (rule range_properties_names)
    with nonempty have "ps \<noteq> []" by auto
    with Inr names show ?thesis
      by (simp add: translateToGoogleSchema_def)
  qed
qed

theorem zero_argument_workaround_witness:
  "llm_Schema.Properties no_argument_schema = []
   \<and> translateToGoogleSchema no_argument_schema =
       Inr (Schema TypeObject [] True [(''unused'', Schema TypeInteger [] True [] None [])]
              None [])
   \<and> llm_Schema.Properties weather_schema \<noteq> []
   \<and> translateToGoogleSchema weather_schema =
       Inr (Schema TypeObject [] False
              [(''location'', Schema TypeString ''City name'' False [] None [])]
              None [''location''])"
  using zero_argument_workaround[of no_argument_schema]
        zero_argument_workaround[of weather_schema]
  by (simp add: no_argument_schema_def weather_schema_def translateToGoogleSchema_def
        propertyToGoogleSchema.simps index_map_def toType.simps)




subsection \<open>The tool-call counter of the Google adapter\<close>


lemma sint_add_small:
  assumes "0 \<le> sint (c::go_int)" and "sint c + int i < 2 ^ 63"
  shows "sint (c + of_nat i) = sint c + int i"
proof -
  from assms have i: "int i < 2 ^ 63" by linarith
  have "sint (of_nat i :: go_int) = sint (word_of_int (int i) :: go_int)" by simp
  also have "\<dots> = signed_take_bit 63 (int i)" by (simp only: sint_sbintrunc') simp
  also have "\<dots> = int i" using i by (intro signed_take_bit_int_eq_self) auto
  finally have "sint (c + of_nat i) = signed_take_bit 63 (sint c + int i)"
    by (simp add: sint_word_add)
  also have "\<dots> = sint c + int i" using assms by (intro signed_take_bit_int_eq_self) auto
  finally show ?thesis .
qed











subsection \<open>Tool responses and their ids\<close>

lemma openai_contentStr_returns:
  "as_string content \<noteq> None \<or> json_Marshal L content \<noteq> None \<Longrightarrow>
     \<exists>s. openai_contentStr L content = Inr s"
  by (cases content) (auto simp: openai_contentStr_def Let_def split: option.splits)

lemma openai_CreateToolResponse_ToolResponse:
  "openai_CreateToolResponse L X content = Inr m \<Longrightarrow>
     openai_Message_ToolResponse m = (X, X \<noteq> [])
     \<and> openai_Message_Role m = ''tool''
     \<and> openai_Message_ToolCalls m = []"
  by (auto simp: openai_CreateToolResponse_def openai_Message_ToolResponse_def
        openai_Message_Role_def openai_Message_ToolCalls_def Let_def split: sum.splits)

lemma anthropic_CreateToolResponse_ToolResponse:
  "anthropic_Message_ToolResponse (anthropic_CreateToolResponse L X content) = (X, True)
   \<and> anthropic_Message_Role (anthropic_CreateToolResponse L X content) = ''tool''
   \<and> anthropic_Message_ToolCalls (anthropic_CreateToolResponse L X content) = []"
  by (simp add: anthropic_CreateToolResponse_def anthropic_Message_ToolResponse_def
        anthropic_Message_Role_def anthropic_Message_ToolCalls_def first_tool_result_def Let_def)

lemma ollama_CreateToolResponse_ToolResponse:
  "ollama_CreateToolResponse L X content = Inr m \<Longrightarrow>
     OllamaMessage_ToolResponse m = (X, True)
     \<and> OllamaMessage_Role m = ''tool''
     \<and> OllamaMessage_ToolCalls now m = []"
  by (auto simp: ollama_CreateToolResponse_def OllamaMessage_ToolResponse_def
        OllamaMessage_Role_def OllamaMessage_ToolCalls_def split: option.splits)

lemma ollama_CreateToolResponse_returns:
  "as_string content \<noteq> None \<or> json_Marshal L content \<noteq> None \<Longrightarrow>
     \<exists>m. ollama_CreateToolResponse L X content = Inr m"
  by (cases content) (auto simp: ollama_CreateToolResponse_def split: option.splits)

text \<open>
  Claim C1 says that \<open>createToolResponse(X, content)\<close> of every adapter returns a message
  that reports \<open>(X, true)\<close>. It fails for the Google adapter, which returns no message, and
  for the OpenAI adapter with the empty id, whose message reports \<open>("", false)\<close>.
\<close>

theorem CreateToolResponse_counterexample:
  "CreateToolResponse sample_lib (Google google_NewProvider) ''call_1'' (AString ''sunny'') = Inr None
   \<and> CreateToolResponse sample_lib OpenAI [] (AString ''sunny'') =
       Inr (Some (OpenAIMsg
         \<lparr>openai_Message.Resp = \<lparr>APIResponse.Choices =
             [\<lparr>Choice.Message = \<lparr>MessageParam.Role = ''tool'', MessageParam.Content = Some ''sunny'',
                 MessageParam.ToolCalls = [], MessageParam.ToolCallID = []\<rparr>\<rparr>]\<rparr>,
          openai_Message.Choice =
             \<lparr>Choice.Message = \<lparr>MessageParam.Role = ''tool'', MessageParam.Content = Some ''sunny'',
                 MessageParam.ToolCalls = [], MessageParam.ToolCallID = []\<rparr>\<rparr>\<rparr>))
   \<and> Message_ToolResponse (OpenAIMsg
         \<lparr>openai_Message.Resp = \<lparr>APIResponse.Choices =
             [\<lparr>Choice.Message = \<lparr>MessageParam.Role = ''tool'', MessageParam.Content = Some ''sunny'',
                 MessageParam.ToolCalls = [], MessageParam.ToolCallID = []\<rparr>\<rparr>]\<rparr>,
          openai_Message.Choice =
             \<lparr>Choice.Message = \<lparr>MessageParam.Role = ''tool'', MessageParam.Content = Some ''sunny'',
                 MessageParam.ToolCalls = [], MessageParam.ToolCallID = []\<rparr>\<rparr>\<rparr>)
       = Inr ([], False)"
  by (simp add: google_CreateToolResponse_def openai_CreateToolResponse_def openai_contentStr_def
        openai_Message_ToolResponse_def Let_def)

text \<open>
  Claim C1, amended. The Anthropic adapter always returns a message, and it reports
  \<open>(X, true)\<close>. The Ollama and the OpenAI adapter return a message whenever the content is
  a string or \<open>json.Marshal\<close> encodes it; Ollama's reports \<open>(X, true)\<close>, OpenAI's reports
  \<open>X\<close> with the flag \<open>X \<noteq> ""\<close>. Whatever message an adapter returns reports \<open>X\<close>, with
  the flag true unless the adapter is OpenAI's and \<open>X\<close> is empty. The Google adapter
  returns \<open>nil, nil\<close>.
\<close>

theorem CreateToolResponse_linkage:
  "(\<exists>m. CreateToolResponse L Anthropic X content = Inr (Some m)
        \<and> Message_ToolResponse m = Inr (X, True))
   \<and> (as_string content \<noteq> None \<or> json_Marshal L content \<noteq> None \<longrightarrow>
        (\<exists>m. CreateToolResponse L Ollama X content = Inr (Some m)
             \<and> Message_ToolResponse m = Inr (X, True)))
   \<and> (as_string content \<noteq> None \<or> json_Marshal L content \<noteq> None \<longrightarrow>
        (\<exists>m. CreateToolResponse L OpenAI X content = Inr (Some m)
             \<and> Message_ToolResponse m = Inr (X, X \<noteq> [])))
   \<and> (CreateToolResponse L P X content = Inr (Some m') \<longrightarrow>
        Message_ToolResponse m' = Inr (X, P \<noteq> OpenAI \<or> X \<noteq> []))
   \<and> CreateToolResponse L (Google p) X content = Inr None"
proof (intro conjI impI)
  show "\<exists>m. CreateToolResponse L Anthropic X content = Inr (Some m)
        \<and> Message_ToolResponse m = Inr (X, True)"
    by (simp add: anthropic_CreateToolResponse_ToolResponse)
next
  assume "as_string content \<noteq> None \<or> json_Marshal L content \<noteq> None"
  then obtain m where "ollama_CreateToolResponse L X content = Inr m"
    using ollama_CreateToolResponse_returns by blast
  then show "\<exists>m. CreateToolResponse L Ollama X content = Inr (Some m)
             \<and> Message_ToolResponse m = Inr (X, True)"
    by (simp add: ollama_CreateToolResponse_ToolResponse)
next
  assume "as_string content \<noteq> None \<or> json_Marshal L content \<noteq> None"
  then obtain s where "openai_contentStr L content = Inr s"
    using openai_contentStr_returns by blast
  then obtain m where "openai_CreateToolResponse L X content = Inr m"
    by (simp add: openai_CreateToolResponse_def Let_def)
  then show "\<exists>m. CreateToolResponse L OpenAI X content = Inr (Some m)
             \<and> Message_ToolResponse m = Inr (X, X \<noteq> [])"
    by (simp add: openai_CreateToolResponse_ToolResponse)
next
  assume "CreateToolResponse L P X content = Inr (Some m')"
  then show "Message_ToolResponse m' = Inr (X, P \<noteq> OpenAI \<or> X \<noteq> [])"
    by (cases P)
       (auto simp: google_CreateToolResponse_def anthropic_CreateToolResponse_ToolResponse
          split: sum.splits
          dest: openai_CreateToolResponse_ToolResponse ollama_CreateToolResponse_ToolResponse)
next
  show "CreateToolResponse L (Google p) X content = Inr None"
    by (simp add: google_CreateToolResponse_def)
qed

theorem CreateToolResponse_linkage_witness:
  "as_string (AString ''sunny'') \<noteq> None
   \<and> (\<exists>m. CreateToolResponse sample_lib Ollama ''call_1'' (AString ''sunny'') = Inr (Some m)
          \<and> Message_ToolResponse m = Inr (''call_1'', True))
   \<and> (\<exists>m. CreateToolResponse sample_lib OpenAI ''call_1'' (AString ''sunny'') = Inr (Some m)
          \<and> Message_ToolResponse m = Inr (''call_1'', True))
   \<and> json_Marshal sample_lib (AMap []) \<noteq> None
   \<and> (\<exists>m. CreateToolResponse sample_lib Ollama ''call_1'' (AMap []) = Inr (Some m)
          \<and> Message_ToolResponse m = Inr (''call_1'', True))"
  using CreateToolResponse_linkage[of sample_lib "''call_1''" "AString ''sunny''"]
        CreateToolResponse_linkage[of sample_lib "''call_1''" "AMap []"]
  by (simp add: sample_lib_def)


subsection \<open>Tool calls and the role\<close>

lemma enumerate_Nil_iff: "enumerate n xs = [] \<longleftrightarrow> xs = []"
  by (cases xs) auto

text \<open>
  Claim C7 says that a message with tool calls has the role \<open>assistant\<close>. A stored turn is
  decoded as it stands: one with the role \<open>user\<close> and a \<open>tool_use\<close> block has a tool call
  and the role \<open>user\<close>.
\<close>

theorem toolCalls_role_counterexample:
  \<open>Message_ToolCalls (\<lambda>i. 0) (HistoryMsg stray_tool_use)
     = [HistoryToolCall ''call_1'' ''get_weather'' ''{"location":"Paris"}'']
   \<and> Message_Role (HistoryMsg stray_tool_use) = Inr ''user''\<close>
  by (simp add: stray_tool_use_def HistoryMessage_ToolCalls_def HistoryMessage_Role_def)

text \<open>
  Claim C7, amended. A message that \<open>createToolResponse\<close> returns has no tool calls and
  the role \<open>tool\<close>. For a stored turn and for a decoded response of a vendor, the role is
  the stored or returned role, and there are tool calls exactly when the data holds a
  \<open>tool_use\<close> block, a tool-call entry or a function-call part; the two are read
  independently, so the implication of the claim holds exactly when the data has it.
\<close>

theorem toolCalls_role:
  "(CreateToolResponse L P X content = Inr (Some m) \<longrightarrow>
      Message_ToolCalls now m = [] \<and> Message_Role m = Inr ''tool'')
   \<and> Message_Role (HistoryMsg h) = Inr (ARole h)
   \<and> (Message_ToolCalls now (HistoryMsg h) \<noteq> [] \<longleftrightarrow>
        list_ex (\<lambda>block. ContentBlock.Type block = ''tool_use'') (AContent h))
   \<and> Message_Role (AnthropicMsg a) = Inr (APIMessage.Role (Msg a))
   \<and> (Message_ToolCalls now (AnthropicMsg a) \<noteq> [] \<longleftrightarrow>
        list_ex (\<lambda>block. ContentBlock.Type block = ''tool_use'') (APIMessage.Content (Msg a)))
   \<and> Message_Role (OpenAIMsg c) = Inr (MessageParam.Role (Choice.Message (openai_Message.Choice c)))
   \<and> (Message_ToolCalls now (OpenAIMsg c) \<noteq> [] \<longleftrightarrow>
        MessageParam.ToolCalls (Choice.Message (openai_Message.Choice c)) \<noteq> [])
   \<and> Message_Role (OllamaMsg d) = Inr (api_Message.Role (OllamaMessage.Message d))
   \<and> (Message_ToolCalls now (OllamaMsg d) \<noteq> [] \<longleftrightarrow>
        api_Message.ToolCalls (OllamaMessage.Message d) \<noteq> [])
   \<and> Message_Role (GoogleMsg g) =
       (case Candidate.Content (google_Message.Candidate g) of
          None \<Rightarrow> Inl Panic | Some ct \<Rightarrow> Inr (genai_Content.Role ct))
   \<and> (Message_ToolCalls now (GoogleMsg g) \<noteq> [] \<longleftrightarrow>
        FunctionCalls (google_Message.Candidate g) \<noteq> [])"
proof (intro conjI impI)
  assume "CreateToolResponse L P X content = Inr (Some m)"
  then show "Message_ToolCalls now m = []" and "Message_Role m = Inr ''tool''"
    by (cases P;
        auto simp: google_CreateToolResponse_def anthropic_CreateToolResponse_ToolResponse
          split: sum.splits
          dest: openai_CreateToolResponse_ToolResponse ollama_CreateToolResponse_ToolResponse)+
qed (auto simp: HistoryMessage_Role_def HistoryMessage_ToolCalls_def anthropic_Message_Role_def
       anthropic_Message_ToolCalls_def openai_Message_Role_def openai_Message_ToolCalls_def
       OllamaMessage_Role_def OllamaMessage_ToolCalls_def list_ex_iff filter_empty_conv
       enumerate_Nil_iff google_Message_Role_def google_Message_ToolCalls_def)

theorem toolCalls_role_witness:
  "CreateToolResponse sample_lib Anthropic ''call_1'' (AString ''sunny'') =
     Inr (Some (AnthropicMsg (anthropic_CreateToolResponse sample_lib ''call_1'' (AString ''sunny''))))
   \<and> Message_ToolCalls (\<lambda>i. 0)
        (AnthropicMsg (anthropic_CreateToolResponse sample_lib ''call_1'' (AString ''sunny''))) = []
   \<and> Message_Role
        (AnthropicMsg (anthropic_CreateToolResponse sample_lib ''call_1'' (AString ''sunny'')))
       = Inr ''tool''"
  using toolCalls_role[of sample_lib Anthropic "''call_1''" "AString ''sunny''"
          "AnthropicMsg (anthropic_CreateToolResponse sample_lib ''call_1'' (AString ''sunny''))"
          "\<lambda>i. 0"]
  by (simp add: anthropic_CreateToolResponse_def)


subsection \<open>The messages of an OpenAI request\<close>


























subsection \<open>Content of an Anthropic message\<close>

text \<open>
  The reading of claim C5, in its words: a text block contributes its text; a
  \<open>tool_result\<close> block contributes its content when that is a string, else the \<open>"text"\<close>
  fields of the maps of its content array, else its own raw \<open>Text\<close>; the contributions
  are joined with one blank and trimmed.
\<close>

definition claimed_text_fields :: "go_lib \<Rightarrow> any list \<Rightarrow> string list" where
  "claimed_text_fields L contentArray =
     concat (map (\<lambda>item. case as_map item of
                            Some contentMap \<Rightarrow>
                              (case map_of contentMap ''text'' of
                                 Some text \<Rightarrow> [fmt_Sprint L text] | None \<Rightarrow> [])
                          | None \<Rightarrow> []) contentArray)"

definition claimed_contribution :: "go_lib \<Rightarrow> ContentBlock \<Rightarrow> string list" where
  "claimed_contribution L block =
     (if ContentBlock.Type block = ''text'' then [ContentBlock.Text block]
      else if ContentBlock.Type block = ''tool_result'' then
        (case as_string (ContentBlock.Content block) of
           Some contentStr \<Rightarrow> [contentStr]
         | None \<Rightarrow>
             (let fields = (case as_array (ContentBlock.Content block) of
                              Some contentArray \<Rightarrow> claimed_text_fields L contentArray
                            | None \<Rightarrow> [])
              in if fields \<noteq> [] then fields
                 else if ContentBlock.Text block \<noteq> [] then [ContentBlock.Text block]
                 else []))
      else [])"

definition claimed_Content :: "go_lib \<Rightarrow> anthropic_Message \<Rightarrow> string" where
  "claimed_Content L m =
     TrimSpace (Join (concat (map (claimed_contribution L) (APIMessage.Content (Msg m)))) '' '')"

text \<open>
  What a block contributes in the code, where an item of the content array that is not
  a map contributes its \<open>%v\<close> as well. \<open>falls_back\<close> holds of a \<open>tool_result\<close> block that has
  nothing but its raw \<open>Text\<close> to contribute, and \<open>fallback_first\<close> of a list of blocks in
  which no such block comes after a block that contributes (\<open>seen\<close> tells whether a block
  before the list has contributed).
\<close>

definition item_contribution :: "go_lib \<Rightarrow> any \<Rightarrow> string list" where
  "item_contribution L item =
     (case as_map item of
        Some contentMap \<Rightarrow>
          (case map_of contentMap ''text'' of Some text \<Rightarrow> [fmt_Sprint L text] | None \<Rightarrow> [])
      | None \<Rightarrow> [fmt_Sprint L item])"

definition array_contribution :: "go_lib \<Rightarrow> ContentBlock \<Rightarrow> string list" where
  "array_contribution L block =
     (case as_array (ContentBlock.Content block) of
        Some contentArray \<Rightarrow> concat (map (item_contribution L) contentArray)
      | None \<Rightarrow> [])"

definition falls_back :: "go_lib \<Rightarrow> ContentBlock \<Rightarrow> bool" where
  "falls_back L block \<longleftrightarrow>
     ContentBlock.Type block = ''tool_result'' \<and> as_string (ContentBlock.Content block) = None
     \<and> array_contribution L block = [] \<and> ContentBlock.Text block \<noteq> []"

definition block_contribution :: "go_lib \<Rightarrow> ContentBlock \<Rightarrow> string list" where
  "block_contribution L block =
     (if ContentBlock.Type block = ''text'' then [ContentBlock.Text block]
      else if ContentBlock.Type block = ''tool_result'' then
        (case as_string (ContentBlock.Content block) of
           Some contentStr \<Rightarrow> [contentStr]
         | None \<Rightarrow>
             if array_contribution L block = [] \<and> ContentBlock.Text block \<noteq> []
             then [ContentBlock.Text block]
             else array_contribution L block)
      else [])"

fun fallback_first :: "go_lib \<Rightarrow> bool \<Rightarrow> ContentBlock list \<Rightarrow> bool" where
  "fallback_first L seen [] = True"
| "fallback_first L seen (block # rest) =
     ((\<not> seen \<or> \<not> falls_back L block)
      \<and> fallback_first L (seen \<or> block_contribution L block \<noteq> []) rest)"

lemma Content_items_append:
  "Content_items L items content = content @ concat (map (item_contribution L) items)"
  by (induction items arbitrary: content)
     (auto simp: item_contribution_def split: option.splits)

lemma Content_blocks_step:
  assumes "content = [] \<or> \<not> falls_back L block"
  shows "(if ContentBlock.Type block = ''text'' then content @ [ContentBlock.Text block]
        else if ContentBlock.Type block = ''tool_result'' then
          (case as_string (ContentBlock.Content block) of
             Some contentStr \<Rightarrow> content @ [contentStr]
           | None \<Rightarrow>
               (let content' =
                  (case as_array (ContentBlock.Content block) of
                     Some contentArray \<Rightarrow> Content_items L contentArray content
                   | None \<Rightarrow> content)
                in if length content' = 0 \<and> ContentBlock.Text block \<noteq> []
                   then content' @ [ContentBlock.Text block] else content'))
        else content) = content @ block_contribution L block"
proof -
  have arr: "(case as_array (ContentBlock.Content block) of
                     Some contentArray \<Rightarrow> Content_items L contentArray content
                   | None \<Rightarrow> content) = content @ array_contribution L block"
    by (simp add: array_contribution_def Content_items_append split: option.splits)
  show ?thesis
  proof (cases "ContentBlock.Type block = ''text''")
    case True
    then show ?thesis by (simp add: block_contribution_def)
  next
    case False
    note not_text = this
    show ?thesis
    proof (cases "ContentBlock.Type block = ''tool_result''")
      case False
      with not_text show ?thesis by (simp add: block_contribution_def)
    next
      case True
      show ?thesis
      proof (cases "as_string (ContentBlock.Content block)")
        case (Some s)
        with True not_text show ?thesis by (simp add: block_contribution_def)
      next
        case None
        with True not_text assms show ?thesis
          unfolding arr Let_def
          by (auto simp: block_contribution_def falls_back_def)
      qed
    qed
  qed
qed

lemma Content_blocks_append:
  "fallback_first L (content \<noteq> []) blocks \<Longrightarrow>
     Content_blocks L blocks content = content @ concat (map (block_contribution L) blocks)"
proof (induction blocks arbitrary: content)
  case Nil
  then show ?case by simp
next
  case (Cons block rest)
  from Cons.prems have ok: "content = [] \<or> \<not> falls_back L block"
    and rest: "fallback_first L (content \<noteq> [] \<or> block_contribution L block \<noteq> []) rest"
    by auto
  have step: "Content_blocks L (block # rest) content =
                Content_blocks L rest (content @ block_contribution L block)"
    by (simp only: Content_blocks.simps Content_blocks_step[OF ok])
  from rest have "fallback_first L (content @ block_contribution L block \<noteq> []) rest" by simp
  from Cons.IH[OF this] step show ?case by simp
qed


text \<open>
  Claim C5 fails on a tool result whose content array holds a text map and a plain string:
  by the claim the block contributes the \<open>"text"\<close> field alone, \<open>sunny\<close>; the code appends
  the string as well.
\<close>

theorem anthropic_Content_counterexample:
  "anthropic_Message_Content sample_lib mixed_result = ''sunny cloudy''
   \<and> claimed_Content sample_lib mixed_result = ''sunny''"
  by code_simp

text \<open>
  The test \<open>len(content) == 0\<close> before the raw \<open>Text\<close> is used looks at the slice shared by
  all blocks: a tool result with only its raw text contributes nothing once an earlier
  block has contributed.
\<close>

lemma anthropic_Content_late_fallback:
  "anthropic_Message_Content sample_lib late_result = ''Result:''
   \<and> claimed_Content sample_lib late_result = ''Result: sunny''"
  by code_simp

text \<open>
  Claim C5, amended. \<open>Content()\<close> scans the blocks in order: a text block contributes its
  text; a \<open>tool_result\<close> block contributes its content when that is a string, else for each
  item of its content array the \<open>%v\<close> of the \<open>"text"\<close> entry of a map and the \<open>%v\<close> of an
  item that is not a map, else its raw \<open>Text\<close> when that is not empty; the contributions
  are joined with one blank and trimmed. This holds for every message in which no block
  that falls back to its raw \<open>Text\<close> follows a block that contributes, so for every
  message of one block and every message of \<open>CreateToolResponse\<close>.
\<close>

theorem anthropic_Content_blocks:
  "(fallback_first L False (APIMessage.Content (Msg m)) \<longrightarrow>
      anthropic_Message_Content L m =
        TrimSpace (Join (concat (map (block_contribution L) (APIMessage.Content (Msg m)))) '' ''))
   \<and> fallback_first L False [block]
   \<and> fallback_first L False
        (APIMessage.Content (Msg (anthropic_CreateToolResponse L X content)))"
  using Content_blocks_append[of L "[]" "APIMessage.Content (Msg m)"]
  by (simp add: anthropic_Message_Content_def anthropic_CreateToolResponse_def Let_def)

theorem anthropic_Content_blocks_witness:
  "fallback_first sample_lib False (APIMessage.Content (Msg text_then_result))
   \<and> concat (map (block_contribution sample_lib) (APIMessage.Content (Msg text_then_result)))
       = ['' Result: '', ''sunny'']
   \<and> anthropic_Message_Content sample_lib text_then_result = ''Result:  sunny''"
proof -
  have f: "fallback_first sample_lib False (APIMessage.Content (Msg text_then_result))"
    and c: "concat (map (block_contribution sample_lib)
                     (APIMessage.Content (Msg text_then_result)))
              = ['' Result: '', ''sunny'']"
    and t: "TrimSpace (Join ['' Result: '', ''sunny''] '' '') = ''Result:  sunny''"
    by code_simp+
  from anthropic_Content_blocks[of sample_lib text_then_result] f c t
  show ?thesis by simp
qed

end
